theory Spec2Isabelle
  imports Main "HOL-Library.Word" "HOL-Library.Signed_Division"
begin

unbundle bit_operations_syntax

section \<open>Data model of \<open>t_pg.h\<close>\<close>

text \<open>
  A \<open>QByteArray\<close> is a sequence of bytes, a \<open>QString\<close> a sequence of UTF-16 code
  units, a \<open>std::string\<close> a sequence of bytes that may hold NUL bytes.  A
  \<open>const char*\<close> is either the null pointer (\<open>None\<close>) or points to a buffer
  (\<open>Some\<close>) that is read up to its first NUL byte.
\<close>

type_synonym byte = "8 word"
type_synonym QByteArray = "byte list"
type_synonym QString = "16 word list"
type_synonym std_string = "byte list"
type_synonym c_str = "byte list option"

text \<open>
  Everything the code writes to the Qt message log (\<open>qWarning()\<close>, \<open>qDebug()\<close>) and
  every call of the wire submission \<open>PQexecParams\<close> is an event; a function with such
  effects returns the events it produced, in order, next to its value.
\<close>

record PQrequest =
  req_command :: QByteArray
  req_nParams :: int
  req_paramValues :: "QByteArray list option"
  req_paramLengths :: "int list option"
  req_paramFormats :: "int list option"
  req_resultFormat :: int

datatype event =
    QWarning string
  | QDebug QByteArray
  | ExecParams PQrequest

subsection \<open>SqlParameterList\<close>

text \<open>The members \<open>params_\<close> and \<open>formats_\<close>, under the names of their accessors.\<close>

record SqlParameterList =
  params :: "QByteArray list"
  formats :: "int list"

definition SqlParameterList_empty :: SqlParameterList where
  "SqlParameterList_empty = \<lparr>params = [], formats = []\<rparr>"

text \<open>\<open>operator +=\<close>: both vectors get the other list's entries inserted at their end.\<close>

definition SqlParameterList_append :: "SqlParameterList \<Rightarrow> SqlParameterList \<Rightarrow> SqlParameterList" where
  "SqlParameterList_append t p =
     t\<lparr>params := params t @ params p, formats := formats t @ formats p\<rparr>"

text \<open>\<open>operator +\<close>: a copy of \<open>a\<close>, then \<open>+= b\<close>.\<close>

definition SqlParameterList_plus :: "SqlParameterList \<Rightarrow> SqlParameterList \<Rightarrow> SqlParameterList" where
  "SqlParameterList_plus a b = SqlParameterList_append a b"

definition size_SqlParameterList :: "SqlParameterList \<Rightarrow> nat" where
  "size_SqlParameterList p = length (params p)"

text \<open>The three \<open>isEmpty\<close> overloads.  \<open>*str\<close> of an empty buffer is its NUL terminator.\<close>

definition deref_c_str :: "byte list \<Rightarrow> byte" where
  "deref_c_str s = (case s of [] \<Rightarrow> 0 | c # _ \<Rightarrow> c)"

definition isEmpty_c_str :: "c_str \<Rightarrow> bool" where
  "isEmpty_c_str str = (\<not> (case str of None \<Rightarrow> False | Some s \<Rightarrow> deref_c_str s \<noteq> 0))"

definition isEmpty_QByteArray :: "QByteArray \<Rightarrow> bool" where
  "isEmpty_QByteArray data = (data = [])"

definition isEmpty_QString :: "QString \<Rightarrow> bool" where
  "isEmpty_QString data = (data = [])"

text \<open>
  \<open>validateData\<close>, given the result of the overload's \<open>isEmpty\<close>: the warning when
  the data is empty, and whether the data is accepted.
\<close>

definition empty_data_message :: string where
  "empty_data_message = ''error - Invalid SQL argument. Empty data''"

definition validateData :: "bool \<Rightarrow> event list \<times> bool" where
  "validateData fail = ((if fail then [QWarning empty_data_message] else []), \<not> fail)"

definition push_param :: "QByteArray \<Rightarrow> int \<Rightarrow> SqlParameterList \<Rightarrow> SqlParameterList" where
  "push_param data fmt p = p\<lparr>params := params p @ [data], formats := formats p @ [fmt]\<rparr>"

text \<open>\<open>arg(const QByteArray&)\<close> and \<open>arg(QByteArray&&)\<close>, which differ by a move only.\<close>

definition arg_QByteArray :: "QByteArray \<Rightarrow> SqlParameterList \<Rightarrow> event list \<times> SqlParameterList" where
  "arg_QByteArray data p =
     (case validateData (isEmpty_QByteArray data) of
        (log, ok) \<Rightarrow> (log, if ok then push_param data 1 p else p))"

text \<open>\<open>arg(const char*)\<close>: \<open>QByteArray(data)\<close> copies the bytes before the first NUL.\<close>

definition QByteArray_of_c_str :: "c_str \<Rightarrow> QByteArray" where
  "QByteArray_of_c_str str = (case str of None \<Rightarrow> [] | Some s \<Rightarrow> takeWhile (\<lambda>c. c \<noteq> 0) s)"

definition arg_c_str :: "c_str \<Rightarrow> SqlParameterList \<Rightarrow> event list \<times> SqlParameterList" where
  "arg_c_str data p =
     (case validateData (isEmpty_c_str data) of
        (log, ok) \<Rightarrow> (log, if ok then push_param (QByteArray_of_c_str data) 0 p else p))"

text \<open>
  \<open>arg(const QString&)\<close>.  \<open>QString::toLocal8Bit\<close> depends on the locale's codec and is
  a parameter of the model.
\<close>

definition arg_QString ::
  "(QString \<Rightarrow> QByteArray) \<Rightarrow> QString \<Rightarrow> SqlParameterList \<Rightarrow> event list \<times> SqlParameterList" where
  "arg_QString toLocal8Bit data p =
     (case validateData (isEmpty_QString data) of
        (log, ok) \<Rightarrow> (log, if ok then push_param (toLocal8Bit data) 0 p else p))"

text \<open>\<open>arg(const std::string&)\<close> passes \<open>data.c_str()\<close> to the \<open>const char*\<close> overload.\<close>

definition c_str_of :: "std_string \<Rightarrow> c_str" where
  "c_str_of data = Some data"

definition arg_std_string :: "std_string \<Rightarrow> SqlParameterList \<Rightarrow> event list \<times> SqlParameterList" where
  "arg_std_string data p = arg_c_str (c_str_of data) p"

text \<open>
  The decimal digits of a number, as \<open>std::to_string\<close> and \<open>QByteArray::number\<close>
  print an integer.
\<close>

fun decimal :: "nat \<Rightarrow> byte list" where
  "decimal n = (if n < 10 then [48 + of_nat n] else decimal (n div 10) @ [48 + of_nat (n mod 10)])"

declare decimal.simps [simp del]

definition to_string :: "int \<Rightarrow> std_string" where
  "to_string v = (if v < 0 then 45 # decimal (nat (- v)) else decimal (nat v))"

text \<open>The generic \<open>arg(const T&)\<close>, for an integer type \<open>T\<close>: \<open>arg(std::to_string(value))\<close>.\<close>

definition arg_number :: "int \<Rightarrow> SqlParameterList \<Rightarrow> event list \<times> SqlParameterList" where
  "arg_number v p = arg_std_string (to_string v) p"

text \<open>
  A \<open>QDateTime\<close> is null or an instant, counted in milliseconds from
  2000-01-01T00:00:00, the instant the decoder of this file starts from.
\<close>

datatype QDateTime = NullDateTime | DateTime int

text \<open>
  The conversions of Qt that the code calls and that depend on the locale or on types
  outside this file are parameters of the model: \<open>QString::toLocal8Bit\<close>,
  \<open>QString::fromLocal8Bit\<close>, \<open>QDateTime::toString("yyyy-MM-dd HH:mm:ss")\<close> and
  \<open>QVariant::toString\<close> (\<open>'v\<close> stands for \<open>QVariant\<close>).
\<close>

record 'v Qt =
  toLocal8Bit :: "QString \<Rightarrow> QByteArray"
  fromLocal8Bit :: "QByteArray \<Rightarrow> QString"
  toString_QDateTime :: "QDateTime \<Rightarrow> QString"
  toString_QVariant :: "'v \<Rightarrow> QString"

definition arg_QDateTime ::
  "'v Qt \<Rightarrow> QDateTime \<Rightarrow> SqlParameterList \<Rightarrow> event list \<times> SqlParameterList" where
  "arg_QDateTime qt data p = arg_QString (toLocal8Bit qt) (toString_QDateTime qt data) p"

definition arg_QVariant ::
  "'v Qt \<Rightarrow> 'v \<Rightarrow> SqlParameterList \<Rightarrow> event list \<times> SqlParameterList" where
  "arg_QVariant qt v p = arg_QString (toLocal8Bit qt) (toString_QVariant qt v) p"

text \<open>The overload set of \<open>arg\<close>: the argument's static type selects the overload.\<close>

datatype 'v Arg =
    Arg_QDateTime QDateTime
  | Arg_QByteArray QByteArray
  | Arg_c_str c_str
  | Arg_QString QString
  | Arg_std_string std_string
  | Arg_number int
  | Arg_QVariant 'v

fun arg :: "'v Qt \<Rightarrow> 'v Arg \<Rightarrow> SqlParameterList \<Rightarrow> event list \<times> SqlParameterList" where
  "arg qt (Arg_QDateTime d) p = arg_QDateTime qt d p"
| "arg qt (Arg_QByteArray d) p = arg_QByteArray d p"
| "arg qt (Arg_c_str d) p = arg_c_str d p"
| "arg qt (Arg_QString d) p = arg_QString (toLocal8Bit qt) d p"
| "arg qt (Arg_std_string d) p = arg_std_string d p"
| "arg qt (Arg_number v) p = arg_number v p"
| "arg qt (Arg_QVariant v) p = arg_QVariant qt v p"

text \<open>
  \<open>paramWithFormat\<close>: the entries as pairs, or a warning and no entry when the two
  vectors differ in length.
\<close>

definition paramWithFormat :: "SqlParameterList \<Rightarrow> event list \<times> (QByteArray \<times> int) list" where
  "paramWithFormat p =
     (if length (params p) \<noteq> length (formats p) then ([QWarning ''invalid data''], [])
      else ([], zip (params p) (formats p)))"

subsection \<open>Sql\<close>

text \<open>The members \<open>command_\<close> and \<open>params_\<close>.\<close>

record Sql =
  command :: QByteArray
  sql_params :: SqlParameterList

definition Sql_of :: "QByteArray \<Rightarrow> Sql" where
  "Sql_of cmd = \<lparr>command = cmd, sql_params = SqlParameterList_empty\<rparr>"

text \<open>\<open>operator += (const Sql&)\<close> and \<open>operator +\<close>.\<close>

definition Sql_append :: "Sql \<Rightarrow> Sql \<Rightarrow> Sql" where
  "Sql_append t s =
     t\<lparr>command := command t @ command s,
       sql_params := SqlParameterList_append (sql_params t) (sql_params s)\<rparr>"

definition Sql_plus :: "Sql \<Rightarrow> Sql \<Rightarrow> Sql" where
  "Sql_plus a b = Sql_append a b"

definition Sql_arg :: "'v Qt \<Rightarrow> 'v Arg \<Rightarrow> Sql \<Rightarrow> event list \<times> Sql" where
  "Sql_arg qt data s =
     (case arg qt data (sql_params s) of (log, p) \<Rightarrow> (log, s\<lparr>sql_params := p\<rparr>))"

definition paramPrefix :: byte where
  "paramPrefix = 36"

text \<open>\<open>parseParamsCount\<close>: \<open>QByteArray::count(char)\<close>, converted to \<open>uint32_t\<close>.\<close>

definition parseParamsCount :: "Sql \<Rightarrow> 32 word" where
  "parseParamsCount s = of_nat (count_list (command s) paramPrefix)"

definition INT_MAX :: nat where
  "INT_MAX = 2147483647"

definition valid :: "Sql \<Rightarrow> bool" where
  "valid s =
     (let count = size_SqlParameterList (sql_params s) in
        command s \<noteq> [] \<and>
        count < INT_MAX \<and>
        count = length (params (sql_params s)) \<and>
        count = length (formats (sql_params s)) \<and>
        (of_nat count :: 32 word) = parseParamsCount s)"

text \<open>
  \<open>QByteArray::replace\<close> for a pattern that is not empty: every occurrence of the
  pattern, found from left to right and not overlapping an earlier
  one, becomes \<open>after\<close>.  The first argument counts the bytes of a found occurrence
  that are still to be skipped.  \<open>debug\<close> only passes patterns that start with
  \<open>paramPrefix\<close>.
\<close>

fun replace_from :: "nat \<Rightarrow> QByteArray \<Rightarrow> QByteArray \<Rightarrow> QByteArray \<Rightarrow> QByteArray" where
  "replace_from k pattern after [] = []"
| "replace_from k pattern after (x # xs) =
     (if 0 < k then replace_from (k - 1) pattern after xs
      else if pattern \<noteq> [] \<and> take (length pattern) (x # xs) = pattern
        then after @ replace_from (length pattern - 1) pattern after xs
      else x # replace_from 0 pattern after xs)"

definition replace :: "QByteArray \<Rightarrow> QByteArray \<Rightarrow> QByteArray \<Rightarrow> QByteArray" where
  "replace pattern after d = replace_from 0 pattern after d"

text \<open>
  The loop of \<open>debug\<close>: the parameter with number \<open>nParam\<close> replaces its placeholder
  when its format tag is 0.
\<close>

fun debug_loop :: "(QByteArray \<times> int) list \<Rightarrow> nat \<Rightarrow> QByteArray \<Rightarrow> QByteArray" where
  "debug_loop [] nParam d = d"
| "debug_loop ((param, fmt) # ps) nParam d =
     debug_loop ps (nParam + 1)
       (if fmt = 0 then replace (paramPrefix # decimal nParam) param d else d)"

definition debug_text :: "Sql \<Rightarrow> QByteArray" where
  "debug_text s = debug_loop (snd (paramWithFormat (sql_params s))) 1 (command s)"

definition debug :: "Sql \<Rightarrow> event list" where
  "debug s = fst (paramWithFormat (sql_params s)) @ [QDebug (debug_text s)]"

subsection \<open>The result handle of libpq\<close>

datatype ExecStatusType =
    PGRES_EMPTY_QUERY
  | PGRES_COMMAND_OK
  | PGRES_TUPLES_OK
  | PGRES_COPY_OUT
  | PGRES_COPY_IN
  | PGRES_BAD_RESPONSE
  | PGRES_NONFATAL_ERROR
  | PGRES_FATAL_ERROR
  | PGRES_COPY_BOTH
  | PGRES_SINGLE_TUPLE

text \<open>
  A \<open>PGresult\<close>: its status, its error text, its number of columns and its rows.  A
  cell is \<open>None\<close> for SQL NULL and \<open>Some\<close> of its raw bytes otherwise.  A
  \<open>PGresult*\<close> is an option, \<open>None\<close> for the null pointer.
\<close>

record PGresult =
  resultStatus :: ExecStatusType
  errMsg :: string
  numAttributes :: nat
  tuples :: "byte list option list list"

definition PQntuples :: "PGresult \<Rightarrow> int" where
  "PQntuples r = int (length (tuples r))"

definition PQnfields :: "PGresult \<Rightarrow> int" where
  "PQnfields r = int (numAttributes r)"

text \<open>
  The cell that libpq finds for a row and a column number (both \<open>int\<close>): \<open>None\<close> when
  the handle is null or a number is out of range.
\<close>

definition PQcell :: "PGresult option \<Rightarrow> int \<Rightarrow> int \<Rightarrow> byte list option option" where
  "PQcell res tup_num field_num =
     (case res of
        None \<Rightarrow> None
      | Some r \<Rightarrow>
          if 0 \<le> tup_num \<and> tup_num < PQntuples r \<and> 0 \<le> field_num \<and> field_num < PQnfields r
             \<and> nat field_num < length (tuples r ! nat tup_num)
          then Some (tuples r ! nat tup_num ! nat field_num)
          else None)"

text \<open>\<open>PQgetisnull\<close> answers 1 also for a cell that is out of range.\<close>

definition PQgetisnull :: "PGresult option \<Rightarrow> int \<Rightarrow> int \<Rightarrow> bool" where
  "PQgetisnull res tup_num field_num =
     (case PQcell res tup_num field_num of Some (Some bs) \<Rightarrow> False | _ \<Rightarrow> True)"

definition PQgetlength :: "PGresult option \<Rightarrow> int \<Rightarrow> int \<Rightarrow> int" where
  "PQgetlength res tup_num field_num =
     (case PQcell res tup_num field_num of Some (Some bs) \<Rightarrow> int (length bs) | _ \<Rightarrow> 0)"

text \<open>
  \<open>PQgetvalue\<close>: the null pointer for a cell out of range, a pointer to an empty
  string for SQL NULL, a pointer to the cell's bytes otherwise.
\<close>

definition PQgetvalue :: "PGresult option \<Rightarrow> int \<Rightarrow> int \<Rightarrow> byte list option" where
  "PQgetvalue res tup_num field_num =
     (case PQcell res tup_num field_num of
        None \<Rightarrow> None
      | Some None \<Rightarrow> Some []
      | Some (Some bs) \<Rightarrow> Some bs)"

subsection \<open>The decoders \<open>value<T>\<close>\<close>

text \<open>
  A fixed-width type \<open>T\<close> is the word of its object representation, \<open>8 * sizeof(T)\<close>
  bits wide.  \<open>qFromBigEndian<T>\<close> reads \<open>sizeof(T)\<close> bytes, the most significant one
  first.
\<close>

definition sizeof :: "'a::len itself \<Rightarrow> nat" where
  "sizeof t = LENGTH('a) div 8"

definition qFromBigEndian :: "byte list \<Rightarrow> 'a::len word" where
  "qFromBigEndian src =
     foldl (\<lambda>acc b. push_bit 8 acc OR ucast b) 0 (take (sizeof TYPE('a)) src)"

text \<open>A \<open>uint32_t\<close> row or column index, passed to libpq's \<open>int\<close> parameter.\<close>

definition int_of_uint32 :: "32 word \<Rightarrow> int" where
  "int_of_uint32 i = sint i"

definition value_num :: "PGresult option \<Rightarrow> 32 word \<Rightarrow> 32 word \<Rightarrow> 'a::len word" where
  "value_num res row column =
     (if \<not> PQgetisnull res (int_of_uint32 row) (int_of_uint32 column)
         \<and> PQgetlength res (int_of_uint32 row) (int_of_uint32 column) = int (sizeof TYPE('a))
      then (case PQgetvalue res (int_of_uint32 row) (int_of_uint32 column) of
              Some bs \<Rightarrow> qFromBigEndian bs
            | None \<Rightarrow> 0)
      else 0)"

definition value_QString ::
  "'v Qt \<Rightarrow> PGresult option \<Rightarrow> 32 word \<Rightarrow> 32 word \<Rightarrow> QString" where
  "value_QString qt res row column =
     (if \<not> PQgetisnull res (int_of_uint32 row) (int_of_uint32 column)
      then (case PQgetvalue res (int_of_uint32 row) (int_of_uint32 column) of
              Some bs \<Rightarrow>
                fromLocal8Bit qt
                  (take (nat (PQgetlength res (int_of_uint32 row) (int_of_uint32 column))) bs)
            | None \<Rightarrow> [])
      else [])"

definition value_QByteArray :: "PGresult option \<Rightarrow> 32 word \<Rightarrow> 32 word \<Rightarrow> QByteArray" where
  "value_QByteArray res row column =
     (if \<not> PQgetisnull res (int_of_uint32 row) (int_of_uint32 column)
      then (case PQgetvalue res (int_of_uint32 row) (int_of_uint32 column) of
              Some bs \<Rightarrow> take (nat (PQgetlength res (int_of_uint32 row) (int_of_uint32 column))) bs
            | None \<Rightarrow> [])
      else [])"

text \<open>
  \<open>value<bool>\<close> reads the first byte behind \<open>PQgetvalue\<close> without a check: the read
  through a null pointer is the error of the model.
\<close>

datatype error = NullPointerRead

definition value_bool :: "PGresult option \<Rightarrow> 32 word \<Rightarrow> 32 word \<Rightarrow> error + bool" where
  "value_bool res row column =
     (case PQgetvalue res (int_of_uint32 row) (int_of_uint32 column) of
        None \<Rightarrow> Inl NullPointerRead
      | Some bs \<Rightarrow> Inr (deref_c_str bs \<noteq> 0))"

text \<open>
  \<open>value<QDateTime>\<close>: the \<open>int64_t\<close> of the cell, divided by 1000 as C++ divides
  (towards zero), is added as milliseconds to 2000-01-01T00:00:00.
\<close>

definition addMSecs :: "QDateTime \<Rightarrow> int \<Rightarrow> QDateTime" where
  "addMSecs d ms = (case d of NullDateTime \<Rightarrow> NullDateTime | DateTime t \<Rightarrow> DateTime (t + ms))"

definition epoch_2000 :: QDateTime where
  "epoch_2000 = DateTime 0"

definition value_QDateTime :: "PGresult option \<Rightarrow> 32 word \<Rightarrow> 32 word \<Rightarrow> QDateTime" where
  "value_QDateTime res row column =
     addMSecs epoch_2000 (sint (value_num res row column :: 64 word) sdiv 1000)"

subsection \<open>PgResult, PgRow and PgRowColumn\<close>

text \<open>The members \<open>res_\<close>, \<open>n_rows_\<close> and \<open>n_columns_\<close>.\<close>

record PgResult =
  res :: "PGresult option"
  n_rows :: "32 word"
  n_columns :: "32 word"

definition PgResult_empty :: PgResult where
  "PgResult_empty = \<lparr>res = None, n_rows = 0, n_columns = 0\<rparr>"

text \<open>The constructor from a handle.\<close>

definition PgResult_of :: "PGresult option \<Rightarrow> event list \<times> PgResult" where
  "PgResult_of h =
     (case h of
        None \<Rightarrow> ([], PgResult_empty)
      | Some r \<Rightarrow>
          if PQntuples r < 0 \<or> PQnfields r < 0
          then ([QWarning ''invalid SQL result: tuples count or fields count < 0''], PgResult_empty)
          else ([], \<lparr>res = Some r, n_rows = of_int (PQntuples r), n_columns = of_int (PQnfields r)\<rparr>))"

definition rowCount :: "PgResult \<Rightarrow> 32 word" where
  "rowCount r = n_rows r"

definition columnCount :: "PgResult \<Rightarrow> 32 word" where
  "columnCount r = n_columns r"

definition PgResult_size :: "PgResult \<Rightarrow> 32 word" where
  "PgResult_size r = rowCount r"

text \<open>
  A \<open>PgRow\<close> holds the pointer \<open>result_\<close> (\<open>None\<close> when null, else the result it
  points to) and the index \<open>row_\<close>; a \<open>PgRowColumn\<close> holds \<open>result_\<close>, \<open>row_\<close> and
  \<open>column_\<close>.
\<close>

record PgRow =
  row_result :: "PgResult option"
  row_index :: "32 word"

record PgRowColumn =
  col_result :: "PgResult option"
  col_row :: "32 word"
  col_column :: "32 word"

definition PgRow_default :: PgRow where
  "PgRow_default = \<lparr>row_result = None, row_index = 0\<rparr>"

definition PgRow_of :: "PgResult \<Rightarrow> 32 word \<Rightarrow> PgRow" where
  "PgRow_of r i = \<lparr>row_result = Some r, row_index = i\<rparr>"

definition PgRow_size :: "PgRow \<Rightarrow> 32 word" where
  "PgRow_size r = (case row_result r of Some pr \<Rightarrow> columnCount pr | None \<Rightarrow> 0)"

definition PgRow_at :: "PgRow \<Rightarrow> 32 word \<Rightarrow> PgRowColumn" where
  "PgRow_at r column = \<lparr>col_result = row_result r, col_row = row_index r, col_column = column\<rparr>"

definition PgRow_begin :: "PgRow \<Rightarrow> PgRowColumn" where
  "PgRow_begin r = PgRow_at r 0"

definition PgRow_end :: "PgRow \<Rightarrow> PgRowColumn" where
  "PgRow_end r = PgRow_at r (PgRow_size r)"

definition PgRow_next :: "PgRow \<Rightarrow> PgRow" where
  "PgRow_next r = r\<lparr>row_index := row_index r + 1\<rparr>"

definition PgRow_eq :: "PgRow \<Rightarrow> PgRow \<Rightarrow> bool" where
  "PgRow_eq a b = (row_index a = row_index b)"

text \<open>\<open>PgRowColumn::next\<close> is \<open>++row_\<close>; \<open>operator ==\<close> compares \<open>column_\<close>.\<close>

definition PgRowColumn_next :: "PgRowColumn \<Rightarrow> PgRowColumn" where
  "PgRowColumn_next c = c\<lparr>col_row := col_row c + 1\<rparr>"

definition PgRowColumn_eq :: "PgRowColumn \<Rightarrow> PgRowColumn \<Rightarrow> bool" where
  "PgRowColumn_eq a b = (col_column a = col_column b)"

definition PgResult_at :: "PgResult \<Rightarrow> 32 word \<Rightarrow> PgRow" where
  "PgResult_at r index = (if index < PgResult_size r then PgRow_of r index else PgRow_default)"

definition PgResult_row :: "PgResult \<Rightarrow> 32 word \<Rightarrow> PgRow" where
  "PgResult_row r index = PgResult_at r index"

definition PgResult_begin :: "PgResult \<Rightarrow> PgRow" where
  "PgResult_begin r = PgRow_of r 0"

definition PgResult_end :: "PgResult \<Rightarrow> PgRow" where
  "PgResult_end r = PgRow_of r (PgResult_size r)"

text \<open>\<open>operator []\<close> of \<open>PgResult\<close>.\<close>

definition PgResult_subscript :: "PgResult \<Rightarrow> 32 word \<Rightarrow> PgRow" where
  "PgResult_subscript r index = PgRow_of r index"

text \<open>
  \<open>PgRowColumn::to<T>\<close>, one function for each decoder; \<open>T()\<close> is 0, the empty text,
  the empty array, \<open>false\<close> and the null date-time.
\<close>

definition in_range :: "PgRowColumn \<Rightarrow> PgResult option" where
  "in_range c =
     (case col_result c of
        None \<Rightarrow> None
      | Some r \<Rightarrow> if col_column c < columnCount r then Some r else None)"

definition to_num :: "PgRowColumn \<Rightarrow> 'a::len word" where
  "to_num c =
     (case in_range c of Some r \<Rightarrow> value_num (res r) (col_row c) (col_column c) | None \<Rightarrow> 0)"

definition to_QString :: "'v Qt \<Rightarrow> PgRowColumn \<Rightarrow> QString" where
  "to_QString qt c =
     (case in_range c of Some r \<Rightarrow> value_QString qt (res r) (col_row c) (col_column c) | None \<Rightarrow> [])"

definition to_QByteArray :: "PgRowColumn \<Rightarrow> QByteArray" where
  "to_QByteArray c =
     (case in_range c of Some r \<Rightarrow> value_QByteArray (res r) (col_row c) (col_column c) | None \<Rightarrow> [])"

definition to_bool :: "PgRowColumn \<Rightarrow> error + bool" where
  "to_bool c =
     (case in_range c of Some r \<Rightarrow> value_bool (res r) (col_row c) (col_column c) | None \<Rightarrow> Inr False)"

definition to_QDateTime :: "PgRowColumn \<Rightarrow> QDateTime" where
  "to_QDateTime c =
     (case in_range c of
        Some r \<Rightarrow> value_QDateTime (res r) (col_row c) (col_column c)
      | None \<Rightarrow> NullDateTime)"

subsection \<open>exec\<close>

text \<open>
  \<open>errorReport\<close>: the message is logged, stored behind \<open>error\<close> when that pointer is
  not null (\<open>Some\<close> of the string it points to), and the null handle is returned.
\<close>

definition errorReport :: "string option \<Rightarrow> string \<Rightarrow> event list \<times> PGresult option \<times> string option" where
  "errorReport error message =
     ([QWarning message], None, (case error of None \<Rightarrow> None | Some old \<Rightarrow> Some message))"

definition isFailStatus :: "ExecStatusType \<Rightarrow> bool" where
  "isFailStatus status = (status \<noteq> PGRES_COMMAND_OK \<and> status \<noteq> PGRES_TUPLES_OK)"

text \<open>The arguments that \<open>exec\<close> passes to \<open>PQexecParams\<close>.\<close>

definition request_of :: "Sql \<Rightarrow> PQrequest" where
  "request_of s =
     (let ps = sql_params s;
          vparams = params ps;
          n_params = size_SqlParameterList ps;
          is_params = (n_params > 0)
      in \<lparr>req_command = takeWhile (\<lambda>c. c \<noteq> 0) (command s),
           req_nParams = int n_params,
           req_paramValues = (if is_params then Some vparams else None),
           req_paramLengths = (if is_params then Some (map (\<lambda>d. int (length d)) vparams) else None),
           req_paramFormats = (if is_params then Some (formats ps) else None),
           req_resultFormat = 1\<rparr>)"

text \<open>
  \<open>exec\<close>.  The server's answer to a submission, \<open>PQexecParams\<close>, is a parameter; the
  call itself is an event.  The result is the log, the handle and the string behind
  \<open>error\<close>.
\<close>

definition exec ::
  "('conn \<Rightarrow> PQrequest \<Rightarrow> PGresult option) \<Rightarrow> 'conn \<Rightarrow> Sql \<Rightarrow> string option
     \<Rightarrow> event list \<times> PGresult option \<times> string option" where
  "exec PQexecParams conn s error =
     (if \<not> valid s then errorReport error ''Sql - Too many parameters''
      else
        let log = debug s @ [ExecParams (request_of s)];
            result = PQexecParams conn (request_of s)
        in (case result of
              None \<Rightarrow>
                (case errorReport error ''PGresult - invalid result handle'' of
                   (l, h, e) \<Rightarrow> (log @ l, h, e))
            | Some r \<Rightarrow>
                if isFailStatus (resultStatus r)
                then (case errorReport error (''PGresult - '' @ errMsg r) of
                        (l, h, e) \<Rightarrow> (log @ l, h, e))
                else (log, Some r, error)))"

subsection \<open>Encodings and sample data that the properties speak about\<close>

text \<open>
  The big-endian encoding of a value of a fixed-width type: its \<open>sizeof(T)\<close> bytes,
  the most significant one first.  This is the form in which the server sends such a
  value; the code of this file only decodes it.
\<close>

definition big_endian_encoding :: "'a::len word \<Rightarrow> byte list" where
  "big_endian_encoding v = map (\<lambda>i. ucast (drop_bit (8 * i) v)) (rev [0..<sizeof TYPE('a)])"

text \<open>The number that a sequence of bytes denotes when read big-endian.\<close>

definition big_endian_number :: "byte list \<Rightarrow> int" where
  "big_endian_number bs = foldl (\<lambda>acc b. 256 * acc + uint b) 0 bs"

text \<open>
  A date-time with microsecond resolution is its count \<open>u\<close> of microseconds from
  2000-01-01T00:00:00.  Its wire encoding is the big-endian \<open>int64_t\<close> of the count;
  truncated to millisecond precision it is the last whole millisecond not after it.
\<close>

definition encode_timestamp :: "int \<Rightarrow> byte list" where
  "encode_timestamp u = big_endian_encoding (word_of_int u :: 64 word)"

definition truncate_to_msecs :: "int \<Rightarrow> QDateTime" where
  "truncate_to_msecs u = DateTime (u div 1000)"

text \<open>A result of one row and one column that holds the given bytes.\<close>

definition single_cell :: "byte list \<Rightarrow> PGresult" where
  "single_cell bs =
     \<lparr>resultStatus = PGRES_TUPLES_OK, errMsg = [], numAttributes = 1, tuples = [[Some bs]]\<rparr>"

text \<open>The bytes of an ASCII text.\<close>

definition bytes_of :: "string \<Rightarrow> byte list" where
  "bytes_of s = map (\<lambda>c. of_nat (of_char c)) s"

text \<open>A Latin-1 codec and trivial conversions, as one possible \<open>Qt\<close> environment.\<close>

definition latin1 :: "unit Qt" where
  "latin1 =
     \<lparr>toLocal8Bit = map ucast, fromLocal8Bit = map ucast,
      toString_QDateTime = (\<lambda>d. []), toString_QVariant = (\<lambda>v. [])\<rparr>"

text \<open>A connection whose submissions never return a result handle.\<close>

definition no_answer :: "unit \<Rightarrow> PQrequest \<Rightarrow> PGresult option" where
  "no_answer conn req = None"

text \<open>
  What \<open>arg\<close> validates and stores for an argument.  A byte array and a \<open>QString\<close>
  are validated as they are; a C string is validated and stored as the bytes before
  its first NUL, and a \<open>std::string\<close> and a number's decimal text are handed on as C
  strings; a date-time and a variant are handed on as the text that Qt makes of them.
\<close>

fun validated_empty :: "'v Qt \<Rightarrow> 'v Arg \<Rightarrow> bool" where
  "validated_empty qt (Arg_QDateTime d) = (toString_QDateTime qt d = [])"
| "validated_empty qt (Arg_QByteArray d) = (d = [])"
| "validated_empty qt (Arg_c_str d) = (QByteArray_of_c_str d = [])"
| "validated_empty qt (Arg_QString d) = (d = [])"
| "validated_empty qt (Arg_std_string d) = (takeWhile (\<lambda>c. c \<noteq> 0) d = [])"
| "validated_empty qt (Arg_number v) = False"
| "validated_empty qt (Arg_QVariant v) = (toString_QVariant qt v = [])"

fun payload :: "'v Qt \<Rightarrow> 'v Arg \<Rightarrow> QByteArray" where
  "payload qt (Arg_QDateTime d) = toLocal8Bit qt (toString_QDateTime qt d)"
| "payload qt (Arg_QByteArray d) = d"
| "payload qt (Arg_c_str d) = QByteArray_of_c_str d"
| "payload qt (Arg_QString d) = toLocal8Bit qt d"
| "payload qt (Arg_std_string d) = takeWhile (\<lambda>c. c \<noteq> 0) d"
| "payload qt (Arg_number v) = to_string v"
| "payload qt (Arg_QVariant v) = toLocal8Bit qt (toString_QVariant qt v)"

fun format_tag :: "'v Arg \<Rightarrow> int" where
  "format_tag (Arg_QByteArray d) = 1"
| "format_tag a = 0"

text \<open>
  The values that are empty as they are passed: an empty string, a null or empty C
  string, an empty byte array.
\<close>

fun passed_empty :: "'v Arg \<Rightarrow> bool" where
  "passed_empty (Arg_QByteArray d) = (d = [])"
| "passed_empty (Arg_c_str d) = (QByteArray_of_c_str d = [])"
| "passed_empty (Arg_QString d) = (d = [])"
| "passed_empty (Arg_std_string d) = (d = [])"
| "passed_empty a = False"

text \<open>The result that wraps one row and one column holding the byte 1.\<close>

definition one_by_one :: PgResult where
  "one_by_one = snd (PgResult_of (Some (single_cell [1])))"

section \<open>Properties\<close>

subsection \<open>Parameter lists and commands\<close>

lemma arg_keeps_lengths:
  "length (params p) = length (formats p) \<Longrightarrow>
   length (params (snd (arg qt a p))) = length (formats (snd (arg qt a p)))"
  by (cases a)
     (simp_all add: arg_QDateTime_def arg_QByteArray_def arg_c_str_def arg_QString_def
        arg_std_string_def arg_number_def arg_QVariant_def validateData_def push_param_def)

text \<open>
  C9.  Concatenating two parameter lists (\<open>operator +\<close>, \<open>operator +=\<close>) gives the
  payloads of the left list followed by those of the right list, and the same for the
  format tags, with no entry changed; when the two vectors of each list have equal
  length, as every list built by \<open>arg\<close> has, the entries as pairs are the left
  list's pairs followed by the right list's.  The sum of two commands has the left
  template followed by the right template, the concatenation of their parameter lists,
  and the sum of their parameter counts.
\<close>

theorem C9_concatenation:
  "params (SqlParameterList_plus a b) = params a @ params b
   \<and> formats (SqlParameterList_plus a b) = formats a @ formats b
   \<and> SqlParameterList_append a b = SqlParameterList_plus a b
   \<and> (length (params a) = length (formats a) \<longrightarrow>
        snd (paramWithFormat (SqlParameterList_plus a b))
          = (if length (params b) = length (formats b)
             then snd (paramWithFormat a) @ snd (paramWithFormat b) else []))
   \<and> command (Sql_plus A B) = command A @ command B
   \<and> sql_params (Sql_plus A B) = SqlParameterList_plus (sql_params A) (sql_params B)
   \<and> Sql_append A B = Sql_plus A B
   \<and> size_SqlParameterList (sql_params (Sql_plus A B))
        = size_SqlParameterList (sql_params A) + size_SqlParameterList (sql_params B)"
  by (simp add: SqlParameterList_plus_def SqlParameterList_append_def Sql_plus_def
      Sql_append_def size_SqlParameterList_def paramWithFormat_def)

theorem C9_concatenation_witness:
  "snd (paramWithFormat (SqlParameterList_plus
      \<lparr>params = [[1], [2]], formats = [0, 1]\<rparr> \<lparr>params = [[3]], formats = [1]\<rparr>))
     = [([1], 0), ([2], 1), ([3], 1)]
   \<and> command (Sql_plus
      \<lparr>command = bytes_of ''a=$1'', sql_params = \<lparr>params = [[1]], formats = [0]\<rparr>\<rparr>
      \<lparr>command = bytes_of '' b=$1'', sql_params = \<lparr>params = [[3]], formats = [1]\<rparr>\<rparr>)
     = bytes_of ''a=$1 b=$1''"
  using C9_concatenation [of "\<lparr>params = [[1], [2]], formats = [0, 1]\<rparr>"
      "\<lparr>params = [[3]], formats = [1]\<rparr>"
      "\<lparr>command = bytes_of ''a=$1'', sql_params = \<lparr>params = [[1]], formats = [0]\<rparr>\<rparr>"
      "\<lparr>command = bytes_of '' b=$1'', sql_params = \<lparr>params = [[3]], formats = [1]\<rparr>\<rparr>"]
  by (simp add: paramWithFormat_def bytes_of_def)

lemma of_nat_eq_word32_iff:
  "n < INT_MAX \<Longrightarrow> ((of_nat n :: 32 word) = w) = (n = unat w)"
proof -
  assume "n < INT_MAX"
  then have "n < 2 ^ LENGTH(32)" by (simp add: INT_MAX_def)
  then have "unat (of_nat n :: 32 word) = n" by (simp add: unat_of_nat)
  then show ?thesis by auto
qed

lemma unat_parseParamsCount:
  "length (command s) < 2 ^ 32 \<Longrightarrow> unat (parseParamsCount s) = count_list (command s) paramPrefix"
proof -
  assume a: "length (command s) < 2 ^ 32"
  have "count_list (command s) paramPrefix \<le> length (command s)" by (rule count_le_length)
  with a have "count_list (command s) paramPrefix < 2 ^ LENGTH(32)" by simp
  then show ?thesis unfolding parseParamsCount_def by (simp add: unat_of_nat)
qed

lemma valid_iff:
  "valid s \<longleftrightarrow>
     command s \<noteq> []
     \<and> size_SqlParameterList (sql_params s) < INT_MAX
     \<and> size_SqlParameterList (sql_params s) = length (params (sql_params s))
     \<and> size_SqlParameterList (sql_params s) = length (formats (sql_params s))
     \<and> size_SqlParameterList (sql_params s) = unat (parseParamsCount s)"
  unfolding valid_def Let_def using of_nat_eq_word32_iff [of "size_SqlParameterList (sql_params s)" "parseParamsCount s"]
  by blast

lemma Sql_arg_QString_params:
  "params (sql_params (snd (Sql_arg qt (Arg_QString d) s)))
     = (if d = [] then params (sql_params s) else params (sql_params s) @ [toLocal8Bit qt d])"
  by (simp add: Sql_arg_def arg_QString_def validateData_def isEmpty_QString_def push_param_def)

lemma Sql_arg_command: "command (snd (Sql_arg qt a s)) = command s"
  by (simp add: Sql_arg_def split: prod.splits)

text \<open>
  C2.  \<open>valid\<close> holds exactly when the template is not empty, the parameter count is
  below \<open>INT_MAX\<close>, it equals the number of payloads, it equals the number of format
  tags, and it equals \<open>parseParamsCount\<close>; \<open>parseParamsCount\<close> is the number of
  \<open>$\<close> bytes in the template (for a template below \<open>2^32\<close> bytes).  A command
  with two \<open>$\<close> in its template that was given a text that is not empty and an empty
  text, in either order, is not valid.
\<close>

theorem C2_valid:
  "(valid s \<longleftrightarrow>
     command s \<noteq> []
     \<and> size_SqlParameterList (sql_params s) < INT_MAX
     \<and> size_SqlParameterList (sql_params s) = length (params (sql_params s))
     \<and> size_SqlParameterList (sql_params s) = length (formats (sql_params s))
     \<and> size_SqlParameterList (sql_params s) = unat (parseParamsCount s))
   \<and> (length (command s) < 2 ^ 32 \<longrightarrow>
        unat (parseParamsCount s) = count_list (command s) paramPrefix)
   \<and> (count_list t paramPrefix = 2 \<and> a \<noteq> [] \<longrightarrow>
        \<not> valid (snd (Sql_arg qt (Arg_QString []) (snd (Sql_arg qt (Arg_QString a) (Sql_of t)))))
        \<and> \<not> valid (snd (Sql_arg qt (Arg_QString a) (snd (Sql_arg qt (Arg_QString []) (Sql_of t))))))"
proof (intro conjI impI)
  show "valid s \<longleftrightarrow>
     command s \<noteq> []
     \<and> size_SqlParameterList (sql_params s) < INT_MAX
     \<and> size_SqlParameterList (sql_params s) = length (params (sql_params s))
     \<and> size_SqlParameterList (sql_params s) = length (formats (sql_params s))
     \<and> size_SqlParameterList (sql_params s) = unat (parseParamsCount s)"
    by (rule valid_iff)
next
  assume "length (command s) < 2 ^ 32"
  then show "unat (parseParamsCount s) = count_list (command s) paramPrefix"
    by (rule unat_parseParamsCount)
next
  assume h: "count_list t paramPrefix = 2 \<and> a \<noteq> []"
  let ?s1 = "snd (Sql_arg qt (Arg_QString []) (snd (Sql_arg qt (Arg_QString a) (Sql_of t))))"
  have len: "size_SqlParameterList (sql_params ?s1) = 1"
    using h by (simp add: size_SqlParameterList_def Sql_arg_QString_params Sql_of_def SqlParameterList_empty_def)
  have cmd: "command ?s1 = t" by (simp add: Sql_arg_command Sql_of_def)
  have "(of_nat (size_SqlParameterList (sql_params ?s1)) :: 32 word) \<noteq> parseParamsCount ?s1"
    using h unfolding len parseParamsCount_def cmd by simp
  then show "\<not> valid ?s1" unfolding valid_def Let_def by blast
next
  assume h: "count_list t paramPrefix = 2 \<and> a \<noteq> []"
  let ?s2 = "snd (Sql_arg qt (Arg_QString a) (snd (Sql_arg qt (Arg_QString []) (Sql_of t))))"
  have len: "size_SqlParameterList (sql_params ?s2) = 1"
    using h by (simp add: size_SqlParameterList_def Sql_arg_QString_params Sql_of_def SqlParameterList_empty_def)
  have cmd: "command ?s2 = t" by (simp add: Sql_arg_command Sql_of_def)
  have "(of_nat (size_SqlParameterList (sql_params ?s2)) :: 32 word) \<noteq> parseParamsCount ?s2"
    using h unfolding len parseParamsCount_def cmd by simp
  then show "\<not> valid ?s2" unfolding valid_def Let_def by blast
qed

lemma count_insert: "count_list (bytes_of ''INSERT INTO t VALUES ($1, $2)'') paramPrefix = 2"
  by (simp add: bytes_of_def paramPrefix_def)

theorem C2_valid_witness:
  "\<not> valid (snd (Sql_arg latin1 (Arg_QString [])
       (snd (Sql_arg latin1 (Arg_QString [97]) (Sql_of (bytes_of ''INSERT INTO t VALUES ($1, $2)''))))))
   \<and> valid (snd (Sql_arg latin1 (Arg_QString [98])
       (snd (Sql_arg latin1 (Arg_QString [97]) (Sql_of (bytes_of ''INSERT INTO t VALUES ($1, $2)''))))))"
proof
  have h: "count_list (bytes_of ''INSERT INTO t VALUES ($1, $2)'') paramPrefix = 2 \<and> [97::16 word] \<noteq> []"
    by (simp add: bytes_of_def paramPrefix_def)
  from C2_valid [of _ "bytes_of ''INSERT INTO t VALUES ($1, $2)''" "[97]" latin1] h
  show "\<not> valid (snd (Sql_arg latin1 (Arg_QString [])
       (snd (Sql_arg latin1 (Arg_QString [97]) (Sql_of (bytes_of ''INSERT INTO t VALUES ($1, $2)''))))))"
    by blast
next
  let ?s = "snd (Sql_arg latin1 (Arg_QString [98])
       (snd (Sql_arg latin1 (Arg_QString [97]) (Sql_of (bytes_of ''INSERT INTO t VALUES ($1, $2)'')))))"
  have p: "params (sql_params ?s) = [[97], [98]]"
    by (simp add: Sql_arg_QString_params Sql_of_def SqlParameterList_empty_def latin1_def)
  have f: "formats (sql_params ?s) = [0, 0]"
    by (simp add: Sql_arg_def arg_QString_def validateData_def isEmpty_QString_def push_param_def
        Sql_of_def SqlParameterList_empty_def)
  have c: "command ?s = bytes_of ''INSERT INTO t VALUES ($1, $2)''"
    by (simp add: Sql_arg_command Sql_of_def)
  have n: "parseParamsCount ?s = 2"
    unfolding parseParamsCount_def c by (simp add: bytes_of_def paramPrefix_def)
  have "command ?s \<noteq> []
     \<and> size_SqlParameterList (sql_params ?s) < INT_MAX
     \<and> size_SqlParameterList (sql_params ?s) = length (params (sql_params ?s))
     \<and> size_SqlParameterList (sql_params ?s) = length (formats (sql_params ?s))
     \<and> size_SqlParameterList (sql_params ?s) = unat (parseParamsCount ?s)"
    unfolding size_SqlParameterList_def p f n c by (simp add: INT_MAX_def bytes_of_def)
  then show "valid ?s"
    using C2_valid [of ?s, THEN conjunct1] by blast
qed

subsection \<open>Appending an argument\<close>

lemma arg_c_str_eq:
  "arg_c_str d p =
     (if QByteArray_of_c_str d = [] then ([QWarning empty_data_message], p)
      else ([], push_param (QByteArray_of_c_str d) 0 p))"
proof (cases d)
  case None
  then show ?thesis
    by (simp add: arg_c_str_def validateData_def isEmpty_c_str_def QByteArray_of_c_str_def)
next
  case (Some s)
  then show ?thesis
    by (cases s)
       (simp_all add: arg_c_str_def validateData_def isEmpty_c_str_def QByteArray_of_c_str_def
          deref_c_str_def)
qed

lemma arg_QString_eq:
  "arg_QString enc d p =
     (if d = [] then ([QWarning empty_data_message], p) else ([], push_param (enc d) 0 p))"
  by (simp add: arg_QString_def validateData_def isEmpty_QString_def)

lemma arg_QByteArray_eq:
  "arg_QByteArray d p =
     (if d = [] then ([QWarning empty_data_message], p) else ([], push_param d 1 p))"
  by (simp add: arg_QByteArray_def validateData_def isEmpty_QByteArray_def)

lemma decimal_not_Nil: "decimal n \<noteq> []"
  by (subst decimal.simps) simp

lemma decimal_no_NUL: "0 \<notin> set (decimal n)"
proof (induction n rule: decimal.induct)
  case (1 n)
  have digit: "(48 + of_nat k :: byte) \<noteq> 0" if "k < 10" for k :: nat
  proof -
    from that have "k \<in> {0,1,2,3,4,5,6,7,8,9}" by auto
    then show ?thesis by auto
  qed
  show ?case
  proof (cases "n < 10")
    case True
    then show ?thesis using digit [of n] by (subst decimal.simps) auto
  next
    case False
    have "n mod 10 < 10" by simp
    then have "(48 + of_nat (n mod 10) :: byte) \<noteq> 0" by (rule digit)
    with False 1 show ?thesis by (subst decimal.simps) auto
  qed
qed

lemma to_string_c_str: "QByteArray_of_c_str (c_str_of (to_string v)) = to_string v"
proof -
  have "0 \<notin> set (to_string v)"
    using decimal_no_NUL by (simp add: to_string_def)
  then have "takeWhile (\<lambda>c. c \<noteq> 0) (to_string v) = to_string v"
    by (intro takeWhile_eq_all_conv [THEN iffD2]) auto
  then show ?thesis by (simp add: QByteArray_of_c_str_def c_str_of_def)
qed

lemma to_string_not_Nil: "to_string v \<noteq> []"
  by (simp add: to_string_def decimal_not_Nil)


lemma arg_eq:
  "arg qt a p =
     (if validated_empty qt a then ([QWarning empty_data_message], p)
      else ([], push_param (payload qt a) (format_tag a) p))"
proof (cases a)
  case (Arg_number v)
  then show ?thesis
    using to_string_c_str [of v] to_string_not_Nil [of v]
    by (simp add: arg_number_def arg_std_string_def arg_c_str_eq)
qed (simp_all add: arg_QDateTime_def arg_QVariant_def arg_std_string_def arg_c_str_eq
      arg_QString_eq arg_QByteArray_eq QByteArray_of_c_str_def c_str_of_def)

lemma passed_empty_validated: "passed_empty a \<Longrightarrow> validated_empty qt a"
  by (cases a) simp_all

text \<open>
  C3, as the code has it.  \<open>arg\<close> validates the form its overload hands on: a byte
  array or \<open>QString\<close> as passed, a C string, \<open>std::string\<close> or number as the bytes
  before the first NUL of its text, a date-time or variant as the text Qt makes of it.
  When that form is empty (every empty string, null or empty C string and empty byte
  array is such a value), one diagnostic is emitted and the list is unchanged; otherwise
  nothing is logged and exactly one pair is appended, with tag 1 for a byte array and
  tag 0 for every other argument.  \<open>arg\<close> always returns a list: no call fails.
\<close>

theorem C3_arg:
  "arg qt a p =
     (if validated_empty qt a then ([QWarning empty_data_message], p)
      else ([], push_param (payload qt a) (format_tag a) p))
   \<and> size_SqlParameterList (snd (arg qt a p))
       = (if validated_empty qt a then size_SqlParameterList p else size_SqlParameterList p + 1)
   \<and> (passed_empty a \<longrightarrow> validated_empty qt a)
   \<and> (validated_empty qt a \<and> \<not> passed_empty a \<longrightarrow>
         (\<exists>d. a = Arg_std_string d) \<or> (\<exists>d. a = Arg_QDateTime d) \<or> (\<exists>v. a = Arg_QVariant v))"
proof (intro conjI impI)
  show "arg qt a p =
     (if validated_empty qt a then ([QWarning empty_data_message], p)
      else ([], push_param (payload qt a) (format_tag a) p))"
    by (rule arg_eq)
  show "size_SqlParameterList (snd (arg qt a p))
       = (if validated_empty qt a then size_SqlParameterList p else size_SqlParameterList p + 1)"
    by (simp add: arg_eq size_SqlParameterList_def push_param_def)
  show "validated_empty qt a" if "passed_empty a"
    using that by (rule passed_empty_validated)
  show "(\<exists>d. a = Arg_std_string d) \<or> (\<exists>d. a = Arg_QDateTime d) \<or> (\<exists>v. a = Arg_QVariant v)"
    if "validated_empty qt a \<and> \<not> passed_empty a"
    using that by (cases a) simp_all
qed

theorem C3_arg_witness:
  "arg latin1 (Arg_QByteArray [1, 0]) \<lparr>params = [[7]], formats = [0]\<rparr>
     = ([], \<lparr>params = [[7], [1, 0]], formats = [0, 1]\<rparr>)
   \<and> arg latin1 (Arg_QString [104, 105]) \<lparr>params = [[7]], formats = [0]\<rparr>
     = ([], \<lparr>params = [[7], [104, 105]], formats = [0, 0]\<rparr>)
   \<and> passed_empty (Arg_c_str None :: unit Arg)
   \<and> arg latin1 (Arg_c_str None) \<lparr>params = [[7]], formats = [0]\<rparr>
     = ([QWarning empty_data_message], \<lparr>params = [[7]], formats = [0]\<rparr>)
   \<and> validated_empty latin1 (Arg_std_string [0, 97]) \<and> \<not> passed_empty (Arg_std_string [0, 97] :: unit Arg)"
  using C3_arg [of latin1 "Arg_QByteArray [1, 0]" "\<lparr>params = [[7]], formats = [0]\<rparr>"]
    C3_arg [of latin1 "Arg_QString [104, 105]" "\<lparr>params = [[7]], formats = [0]\<rparr>"]
    C3_arg [of latin1 "Arg_c_str None" "\<lparr>params = [[7]], formats = [0]\<rparr>"]
  by (simp add: push_param_def latin1_def QByteArray_of_c_str_def)

text \<open>
  The claim as stated fails for a \<open>std::string\<close> that starts with a NUL byte: it is
  not empty, and yet it is dropped with the diagnostic.
\<close>

theorem C3_counterexample:
  "\<not> passed_empty (Arg_std_string [0, 97] :: unit Arg)
   \<and> arg latin1 (Arg_std_string [0, 97]) SqlParameterList_empty
       = ([QWarning empty_data_message], SqlParameterList_empty)"
  by (simp add: arg_std_string_def c_str_of_def arg_c_str_def validateData_def isEmpty_c_str_def
      deref_c_str_def)

subsection \<open>exec\<close>

lemma debug_valid: "valid s \<Longrightarrow> debug s = [QDebug (debug_text s)]"
  by (simp add: valid_def debug_def paramWithFormat_def Let_def size_SqlParameterList_def)

lemma exec_valid_log:
  "valid s \<Longrightarrow>
   \<exists>rest. fst (exec PQexecParams conn s error)
            = QDebug (debug_text s) # ExecParams (request_of s) # rest"
  by (simp add: exec_def debug_valid errorReport_def Let_def split: option.splits)

text \<open>
  C4.  When \<open>valid\<close> is false, \<open>exec\<close> returns the null handle, logs the message
  \<open>Sql - Too many parameters\<close> and stores it behind \<open>error\<close> when that pointer is not
  null; the log holds nothing else, so \<open>PQexecParams\<close> is not called, whatever the
  connection is.
\<close>

theorem C4_exec_invalid:
  "\<not> valid s \<Longrightarrow>
   exec PQexecParams conn s error
     = ([QWarning ''Sql - Too many parameters''], None,
        (case error of None \<Rightarrow> None | Some old \<Rightarrow> Some ''Sql - Too many parameters''))
   \<and> (\<forall>req. ExecParams req \<notin> set (fst (exec PQexecParams conn s error)))"
  by (simp add: exec_def errorReport_def)

lemma select_1_invalid: "\<not> valid (Sql_of (bytes_of ''SELECT $1''))"
  by (simp add: valid_def Sql_of_def SqlParameterList_empty_def size_SqlParameterList_def
      parseParamsCount_def bytes_of_def paramPrefix_def)

theorem C4_exec_invalid_witness:
  "\<not> valid (Sql_of (bytes_of ''SELECT $1''))
   \<and> exec no_answer () (Sql_of (bytes_of ''SELECT $1'')) (Some [])
        = ([QWarning ''Sql - Too many parameters''], None, Some ''Sql - Too many parameters'')"
  using C4_exec_invalid [OF select_1_invalid, of no_answer "()" "Some []"] select_1_invalid
  by simp

text \<open>
  C8, as the code has it.  For a valid command, the log of \<open>exec\<close> starts with the
  rendered debug form of the command, followed at once by the submission, whatever the
  submission's outcome; for a command that is not valid, \<open>exec\<close> returns before
  rendering, and its log is the rejection message alone.
\<close>

theorem C8_debug_logged:
  "(valid s \<longrightarrow>
      (\<exists>rest. fst (exec PQexecParams conn s error)
                = QDebug (debug_text s) # ExecParams (request_of s) # rest))
   \<and> (\<not> valid s \<longrightarrow>
      fst (exec PQexecParams conn s error) = [QWarning ''Sql - Too many parameters''])"
proof (intro conjI impI)
  assume "valid s"
  then show "\<exists>rest. fst (exec PQexecParams conn s error)
                = QDebug (debug_text s) # ExecParams (request_of s) # rest"
    by (rule exec_valid_log)
next
  assume "\<not> valid s"
  then show "fst (exec PQexecParams conn s error) = [QWarning ''Sql - Too many parameters'']"
    by (simp add: exec_def errorReport_def)
qed

lemma select_1_bound_valid:
  "valid \<lparr>command = bytes_of ''SELECT $1'', sql_params = \<lparr>params = [bytes_of ''7''], formats = [0]\<rparr>\<rparr>"
  by (simp add: valid_def size_SqlParameterList_def parseParamsCount_def bytes_of_def
      paramPrefix_def INT_MAX_def)

lemma select_1_bound_text:
  "debug_text \<lparr>command = bytes_of ''SELECT $1'', sql_params = \<lparr>params = [bytes_of ''7''], formats = [0]\<rparr>\<rparr>
     = bytes_of ''SELECT 7''"
  by (simp add: debug_text_def paramWithFormat_def bytes_of_def replace_def paramPrefix_def
      decimal.simps)

theorem C8_debug_logged_witness:
  "valid \<lparr>command = bytes_of ''SELECT $1'', sql_params = \<lparr>params = [bytes_of ''7''], formats = [0]\<rparr>\<rparr>
   \<and> (\<exists>rest. fst (exec no_answer ()
          \<lparr>command = bytes_of ''SELECT $1'', sql_params = \<lparr>params = [bytes_of ''7''], formats = [0]\<rparr>\<rparr> None)
        = QDebug (bytes_of ''SELECT 7'')
          # ExecParams (request_of
              \<lparr>command = bytes_of ''SELECT $1'', sql_params = \<lparr>params = [bytes_of ''7''], formats = [0]\<rparr>\<rparr>)
          # rest)"
  using C8_debug_logged [of "\<lparr>command = bytes_of ''SELECT $1'', sql_params = \<lparr>params = [bytes_of ''7''], formats = [0]\<rparr>\<rparr>"
      no_answer "()" None]
    select_1_bound_valid select_1_bound_text
  by simp

text \<open>
  The claim as stated fails for a command that is not valid: its rendered form is not
  in the log of \<open>exec\<close>.
\<close>

theorem C8_counterexample:
  "QDebug (debug_text (Sql_of (bytes_of ''SELECT $1'')))
     \<notin> set (fst (exec no_answer () (Sql_of (bytes_of ''SELECT $1'')) None))"
  using select_1_invalid by (simp add: exec_def errorReport_def)

subsection \<open>The result cursor\<close>

lemma one_by_one_eq:
  "one_by_one = \<lparr>res = Some (single_cell [1]), n_rows = 1, n_columns = 1\<rparr>"
  by (simp add: one_by_one_def PgResult_of_def single_cell_def PQntuples_def PQnfields_def)

text \<open>
  C7.  A column view that is bound to no result, or whose column index is not below
  the column count of its result, decodes to the default value of the target type: 0
  for a fixed-width number, the empty text, the empty byte array, \<open>false\<close>, the null
  date-time.  It reads no cell, so it does not fail, not even for \<open>bool\<close>, whose
  decoder reads through the pointer of the cell.
\<close>

theorem C7_to_out_of_range:
  "col_result c = None \<or> (\<exists>r. col_result c = Some r \<and> \<not> col_column c < columnCount r) \<Longrightarrow>
   to_num c = 0
   \<and> to_QString qt c = []
   \<and> to_QByteArray c = []
   \<and> to_bool c = Inr False
   \<and> to_QDateTime c = NullDateTime"
  by (auto simp add: to_num_def to_QString_def to_QByteArray_def to_bool_def to_QDateTime_def
      in_range_def)

theorem C7_to_out_of_range_witness:
  "\<not> col_column (PgRow_at (PgRow_of one_by_one 0) 1) < columnCount one_by_one
   \<and> (to_num (PgRow_at (PgRow_of one_by_one 0) 1) :: 32 word) = 0
   \<and> to_bool (PgRow_at (PgRow_of one_by_one 0) 1) = Inr False
   \<and> to_bool (PgRow_at PgRow_default 0) = Inr False
   \<and> to_QDateTime (PgRow_at (PgRow_of one_by_one 0) 1) = NullDateTime"
proof -
  have h1: "col_result (PgRow_at (PgRow_of one_by_one 0) 1) = None
            \<or> (\<exists>r. col_result (PgRow_at (PgRow_of one_by_one 0) 1) = Some r
                   \<and> \<not> col_column (PgRow_at (PgRow_of one_by_one 0) 1) < columnCount r)"
    by (simp add: PgRow_at_def PgRow_of_def one_by_one_eq columnCount_def)
  have h2: "col_result (PgRow_at PgRow_default 0) = None
            \<or> (\<exists>r. col_result (PgRow_at PgRow_default 0) = Some r
                   \<and> \<not> col_column (PgRow_at PgRow_default 0) < columnCount r)"
    by (simp add: PgRow_at_def PgRow_default_def)
  have "\<not> col_column (PgRow_at (PgRow_of one_by_one 0) 1) < columnCount one_by_one"
    by (simp add: PgRow_at_def PgRow_of_def one_by_one_eq columnCount_def)
  moreover from C7_to_out_of_range [OF h1]
  have "(to_num (PgRow_at (PgRow_of one_by_one 0) 1) :: 32 word) = 0"
    by (rule conjunct1)
  moreover from C7_to_out_of_range [OF h1, where ?'a = 32]
  have "to_bool (PgRow_at (PgRow_of one_by_one 0) 1) = Inr False"
    and "to_QDateTime (PgRow_at (PgRow_of one_by_one 0) 1) = NullDateTime"
    by blast+
  moreover from C7_to_out_of_range [OF h2, where ?'a = 32]
  have "to_bool (PgRow_at PgRow_default 0) = Inr False"
    by blast
  ultimately show ?thesis by blast
qed

text \<open>
  C10.  The subscript operator of a result checks no bound: for every index it returns
  the row bound to the result with that index, and the size of that row is the column
  count of the result.  \<open>at\<close> and \<open>row\<close> return the unbound row of size 0 for an
  index that is not below the row count, and the bound row otherwise.
\<close>

theorem C10_subscript_unchecked:
  "PgResult_subscript r i = \<lparr>row_result = Some r, row_index = i\<rparr>
   \<and> PgRow_size (PgResult_subscript r i) = columnCount r
   \<and> (\<not> i < rowCount r \<longrightarrow>
        PgResult_at r i = \<lparr>row_result = None, row_index = 0\<rparr>
        \<and> PgResult_row r i = \<lparr>row_result = None, row_index = 0\<rparr>
        \<and> PgRow_size (PgResult_at r i) = 0)
   \<and> (i < rowCount r \<longrightarrow>
        PgResult_at r i = PgResult_subscript r i \<and> PgResult_row r i = PgResult_subscript r i)"
  by (simp add: PgResult_subscript_def PgRow_of_def PgRow_size_def PgResult_at_def
      PgResult_row_def PgResult_size_def PgRow_default_def)

theorem C10_subscript_unchecked_witness:
  "\<not> 5 < rowCount one_by_one
   \<and> PgResult_subscript one_by_one 5 = \<lparr>row_result = Some one_by_one, row_index = 5\<rparr>
   \<and> PgRow_size (PgResult_subscript one_by_one 5) = 1
   \<and> PgResult_at one_by_one 5 = \<lparr>row_result = None, row_index = 0\<rparr>
   \<and> PgRow_size (PgResult_at one_by_one 5) = 0"
proof -
  have "\<not> 5 < rowCount one_by_one" and "columnCount one_by_one = 1"
    by (simp_all add: one_by_one_eq rowCount_def columnCount_def)
  with C10_subscript_unchecked [of one_by_one 5] show ?thesis by metis
qed

text \<open>Incrementing a row cursor \<open>n\<close> times adds \<open>n\<close> to its row index.\<close>

lemma PgRow_next_funpow:
  "(PgRow_next ^^ n) r = r\<lparr>row_index := row_index r + of_nat n\<rparr>"
  by (induction n) (simp_all add: PgRow_next_def add.assoc)

text \<open>
  From \<open>begin\<close> of a result, the cursor after \<open>n\<close> increments is the row with index
  \<open>n\<close>; up to the row count it equals \<open>end\<close> after exactly \<open>rowCount\<close> increments.
\<close>

lemma PgResult_rows_visited:
  assumes "n \<le> unat (rowCount r)"
  shows "(PgRow_next ^^ n) (PgResult_begin r) = PgRow_of r (of_nat n)"
    and "PgRow_eq ((PgRow_next ^^ n) (PgResult_begin r)) (PgResult_end r) \<longleftrightarrow> n = unat (rowCount r)"
    and "n < unat (rowCount r) \<Longrightarrow> PgResult_at r (of_nat n) = (PgRow_next ^^ n) (PgResult_begin r)"
proof -
  show eq: "(PgRow_next ^^ n) (PgResult_begin r) = PgRow_of r (of_nat n)"
    by (simp add: PgRow_next_funpow PgResult_begin_def PgRow_of_def)
  have lt: "n < 2 ^ LENGTH(32)"
    using assms unsigned_less [of "rowCount r", where 'a = nat] by simp
  have un: "unat (of_nat n :: 32 word) = n"
    using lt by (simp add: unat_of_nat)
  show "PgRow_eq ((PgRow_next ^^ n) (PgResult_begin r)) (PgResult_end r) \<longleftrightarrow> n = unat (rowCount r)"
    unfolding eq using un
    by (auto simp add: PgRow_eq_def PgRow_of_def PgResult_end_def PgResult_size_def)
  show "PgResult_at r (of_nat n) = (PgRow_next ^^ n) (PgResult_begin r)" if "n < unat (rowCount r)"
    unfolding eq using that un
    by (simp add: PgResult_at_def PgResult_size_def word_less_nat_alt)
qed

text \<open>Incrementing a column view never changes its column index.\<close>

lemma PgRowColumn_next_funpow:
  "(PgRowColumn_next ^^ n) c = c\<lparr>col_row := col_row c + of_nat n\<rparr>"
  by (induction n) (simp_all add: PgRowColumn_next_def add.assoc)

text \<open>
  So from \<open>begin\<close> of a row with at least one column, no number of increments gives a
  cursor equal to \<open>end\<close>.
\<close>

lemma PgRowColumn_never_at_end:
  assumes "PgRow_size r \<noteq> 0"
  shows "\<not> PgRowColumn_eq ((PgRowColumn_next ^^ n) (PgRow_begin r)) (PgRow_end r)"
  using assms [symmetric]
  by (simp add: PgRowColumn_next_funpow PgRowColumn_eq_def PgRow_begin_def PgRow_end_def
      PgRow_at_def)

text \<open>
  C1 at a result of one row and one column.  The row 0 has size 1.  One increment of
  its \<open>begin\<close> leaves the column index at 0 and moves the row index to 1: the cursor
  is not equal to \<open>end\<close>, whose column index is 1.  (The row cursor of the same
  result does reach \<open>end\<close> after one increment.)
\<close>

theorem C1_column_cursor_stuck:
  "PgRow_size (PgResult_at one_by_one 0) = 1
   \<and> PgRowColumn_next (PgRow_begin (PgResult_at one_by_one 0))
       = \<lparr>col_result = Some one_by_one, col_row = 1, col_column = 0\<rparr>
   \<and> PgRow_end (PgResult_at one_by_one 0)
       = \<lparr>col_result = Some one_by_one, col_row = 0, col_column = 1\<rparr>
   \<and> \<not> PgRowColumn_eq (PgRowColumn_next (PgRow_begin (PgResult_at one_by_one 0)))
         (PgRow_end (PgResult_at one_by_one 0))
   \<and> PgRow_eq (PgRow_next (PgResult_begin one_by_one)) (PgResult_end one_by_one)"
proof -
  have at: "PgResult_at one_by_one 0 = \<lparr>row_result = Some one_by_one, row_index = 0\<rparr>"
    by (simp add: PgResult_at_def PgResult_size_def rowCount_def PgRow_of_def one_by_one_eq)
  have sz: "PgRow_size \<lparr>row_result = Some one_by_one, row_index = 0\<rparr> = 1"
    by (simp add: PgRow_size_def columnCount_def one_by_one_eq)
  show ?thesis
    unfolding at
    by (simp add: sz PgRowColumn_next_def PgRow_begin_def PgRow_end_def PgRow_at_def
        PgRowColumn_eq_def PgRow_eq_def PgRow_next_def PgResult_begin_def PgResult_end_def
        PgResult_size_def rowCount_def PgRow_of_def)
      (simp add: one_by_one_eq)
qed

subsection \<open>Decoding fixed-width numbers\<close>

text \<open>One step of the reader: shifting in a byte is multiplying by 256 and adding it.\<close>

lemma shift_in_byte:
  "push_bit 8 acc OR ucast b = (acc * 256 + ucast b :: 'a::len word)" for b :: byte
proof -
  have "push_bit 8 acc + (ucast b :: 'a word) = push_bit 8 acc OR ucast b"
  proof (rule disjunctive_add_eq_or)
    show "push_bit 8 acc AND (ucast b :: 'a word) = 0"
      by (rule bit_word_eqI) (auto simp add: bit_and_iff bit_push_bit_iff bit_ucast_iff dest: bit_imp_le_length)
  qed
  then show ?thesis
    by (simp add: push_bit_eq_mult)
qed

lemma foldl_shift_in:
  "foldl (\<lambda>acc b. push_bit 8 acc OR ucast b) (word_of_int a :: 'a::len word) bs
     = word_of_int (foldl (\<lambda>acc b. 256 * acc + uint b) a bs)" for bs :: "byte list"
proof (induction bs arbitrary: a)
  case Nil
  show ?case by simp
next
  case (Cons b bs)
  have "push_bit 8 (word_of_int a) OR ucast b = (word_of_int a * 256 + ucast b :: 'a word)"
    by (rule shift_in_byte)
  also have "\<dots> = word_of_int (256 * a + uint b)"
    by simp
  finally show ?case using Cons.IH [of "256 * a + uint b"] by simp
qed

lemma big_endian_number_bounds:
  "0 \<le> a \<Longrightarrow> 0 \<le> foldl (\<lambda>acc b. 256 * acc + uint b) a bs
     \<and> foldl (\<lambda>acc b. 256 * acc + uint b) a bs < (a + 1) * 256 ^ length bs"
  for bs :: "byte list"
proof (induction bs arbitrary: a)
  case Nil
  then show ?case by simp
next
  case (Cons b bs)
  have "uint b < 2 ^ LENGTH(8)" by (rule uint_lt2p)
  then have b: "0 \<le> uint b" "uint b < 256" by simp_all
  with Cons.prems have nn: "0 \<le> 256 * a + uint b" by simp
  from Cons.IH [OF nn]
  have lo: "0 \<le> foldl (\<lambda>acc b. 256 * acc + uint b) (256 * a + uint b) bs"
    and hi: "foldl (\<lambda>acc b. 256 * acc + uint b) (256 * a + uint b) bs
               < (256 * a + uint b + 1) * 256 ^ length bs"
    by simp_all
  have "256 * a + uint b + 1 \<le> (a + 1) * 256" using b by simp
  then have "(256 * a + uint b + 1) * 256 ^ length bs \<le> ((a + 1) * 256) * 256 ^ length bs"
    by (rule mult_right_mono) simp
  with hi have "foldl (\<lambda>acc b. 256 * acc + uint b) (256 * a + uint b) bs
                  < ((a + 1) * 256) * 256 ^ length bs"
    by (rule less_le_trans)
  then have "foldl (\<lambda>acc b. 256 * acc + uint b) (256 * a + uint b) bs
                  < (a + 1) * 256 ^ length (b # bs)"
    by (simp add: algebra_simps)
  with lo show ?case by simp
qed

text \<open>\<open>qFromBigEndian\<close> of exactly \<open>sizeof(T)\<close> bytes is the number they denote.\<close>

lemma qFromBigEndian_number:
  assumes "length bs = sizeof TYPE('a::len)"
  shows "(qFromBigEndian bs :: 'a word) = word_of_int (big_endian_number bs)"
  using assms foldl_shift_in [of 0 bs, where 'a = 'a]
  by (simp add: qFromBigEndian_def big_endian_number_def)

lemma uint_qFromBigEndian:
  assumes "length bs = sizeof TYPE('a::len)"
  shows "uint (qFromBigEndian bs :: 'a word) = big_endian_number bs"
proof -
  have "8 * length bs \<le> LENGTH('a)"
    using assms by (simp add: sizeof_def)
  then have le: "(2::int) ^ (8 * length bs) \<le> 2 ^ LENGTH('a)"
    by (rule power_increasing) simp
  have p: "(256::int) ^ length bs = 2 ^ (8 * length bs)"
    by (simp add: power_mult)
  have lo: "0 \<le> big_endian_number bs" and "big_endian_number bs < 256 ^ length bs"
    using big_endian_number_bounds [of 0 bs] by (simp_all add: big_endian_number_def)
  then have "big_endian_number bs < 2 ^ (8 * length bs)"
    unfolding p by simp
  then have hi: "big_endian_number bs < 2 ^ LENGTH('a)"
    using le by (rule less_le_trans)
  show ?thesis
    unfolding qFromBigEndian_number [OF assms] using lo hi by (simp add: uint_word_of_int)
qed

lemma uint_byte_of:
  "uint (ucast (drop_bit k v) :: byte) = uint v div 2 ^ k mod 256" for v :: "'a::len word"
proof -
  have "uint (ucast (drop_bit k v) :: byte) = take_bit 8 (drop_bit k (uint v))"
    by (simp add: unsigned_ucast_eq unsigned_drop_bit_eq take_bit_int_eq_self)
  also have "\<dots> = uint v div 2 ^ k mod 256"
    by (simp add: take_bit_eq_mod drop_bit_eq_div)
  finally show ?thesis .
qed

lemma foldl_encoding:
  "foldl (\<lambda>acc b. 256 * acc + uint b) a
      (map (\<lambda>i. ucast (drop_bit (8 * i) v) :: byte) (rev [0..<n]))
     = a * 2 ^ (8 * n) + uint v mod 2 ^ (8 * n)" for v :: "'a::len word"
proof (induction n arbitrary: a)
  case 0
  show ?case by simp
next
  case (Suc n)
  have split: "uint v mod (2 ^ (8 * n) * 256) = 2 ^ (8 * n) * (uint v div 2 ^ (8 * n) mod 256) + uint v mod 2 ^ (8 * n)"
    by (rule zmod_zmult2_eq) simp
  have "foldl (\<lambda>acc b. 256 * acc + uint b) a
      (map (\<lambda>i. ucast (drop_bit (8 * i) v) :: byte) (rev [0..<Suc n]))
    = (256 * a + uint v div 2 ^ (8 * n) mod 256) * 2 ^ (8 * n) + uint v mod 2 ^ (8 * n)"
    using Suc.IH [of "256 * a + uint v div 2 ^ (8 * n) mod 256"] by (simp add: uint_byte_of)
  also have "\<dots> = a * 2 ^ (8 * Suc n) + uint v mod 2 ^ (8 * Suc n)"
    using split by (simp add: algebra_simps power_add)
  finally show ?case .
qed

lemma length_big_endian_encoding:
  "length (big_endian_encoding (v :: 'a::len word)) = sizeof TYPE('a)"
  by (simp add: big_endian_encoding_def)

lemma big_endian_number_encoding:
  assumes "8 dvd LENGTH('a::len)"
  shows "big_endian_number (big_endian_encoding (v :: 'a word)) = uint v"
proof -
  from assms have len: "8 * sizeof TYPE('a) = LENGTH('a)"
    by (auto simp add: sizeof_def)
  have "big_endian_number (big_endian_encoding v) = uint v mod 2 ^ (8 * sizeof TYPE('a))"
    using foldl_encoding [of 0 v "sizeof TYPE('a)"]
    by (simp add: big_endian_number_def big_endian_encoding_def)
  also have "\<dots> = uint v"
    unfolding len using uint_lt2p [of v] by simp
  finally show ?thesis .
qed

text \<open>Decoding the big-endian encoding of a value gives the value back.\<close>

lemma qFromBigEndian_encoding:
  assumes "8 dvd LENGTH('a::len)"
  shows "qFromBigEndian (big_endian_encoding v) = (v :: 'a word)"
  using qFromBigEndian_number [OF length_big_endian_encoding, of v]
    big_endian_number_encoding [OF assms, of v]
  by simp

lemma PQcell_single_cell:
  "PQcell (Some (single_cell bs)) (int_of_uint32 0) (int_of_uint32 0) = Some (Some bs)"
  by (simp add: PQcell_def single_cell_def int_of_uint32_def PQntuples_def PQnfields_def)

lemma value_num_cell:
  "(value_num h row column :: 'a::len word) =
     (case PQcell h (int_of_uint32 row) (int_of_uint32 column) of
        Some (Some bs) \<Rightarrow> if length bs = sizeof TYPE('a) then qFromBigEndian bs else 0
      | _ \<Rightarrow> 0)"
  by (simp add: value_num_def PQgetisnull_def PQgetlength_def PQgetvalue_def
      split: option.splits)

lemma value_num_encoding:
  assumes "8 dvd LENGTH('a::len)"
    and "PQcell h (int_of_uint32 row) (int_of_uint32 column) = Some (Some (big_endian_encoding v))"
  shows "value_num h row column = (v :: 'a word)"
  using assms(2) qFromBigEndian_encoding [OF assms(1), of v]
  by (simp add: value_num_cell length_big_endian_encoding)

text \<open>
  C5.  For a fixed-width type \<open>T\<close>, \<open>value<T>\<close> is \<open>qFromBigEndian\<close> of the cell's
  bytes when the cell is in range, not NULL and \<open>sizeof(T)\<close> bytes long, and 0 in every
  other case; \<open>qFromBigEndian\<close> of \<open>sizeof(T)\<close> bytes is the number they denote
  read big-endian; so a cell that holds the big-endian encoding of a value \<open>v\<close> of
  \<open>T\<close> (a type of whole bytes) decodes to \<open>v\<close>.
\<close>

theorem C5_value_num:
  "(value_num h row column :: 'a::len word) =
     (case PQcell h (int_of_uint32 row) (int_of_uint32 column) of
        Some (Some bs) \<Rightarrow> if length bs = sizeof TYPE('a) then qFromBigEndian bs else 0
      | _ \<Rightarrow> 0)
   \<and> (length cs = sizeof TYPE('a) \<longrightarrow> uint (qFromBigEndian cs :: 'a word) = big_endian_number cs)
   \<and> (8 dvd LENGTH('a)
        \<and> PQcell h (int_of_uint32 row) (int_of_uint32 column) = Some (Some (big_endian_encoding (v :: 'a word)))
       \<longrightarrow> value_num h row column = v)"
proof (intro conjI impI)
  show "(value_num h row column :: 'a word) =
     (case PQcell h (int_of_uint32 row) (int_of_uint32 column) of
        Some (Some bs) \<Rightarrow> if length bs = sizeof TYPE('a) then qFromBigEndian bs else 0
      | _ \<Rightarrow> 0)"
    by (rule value_num_cell)
  show "uint (qFromBigEndian cs :: 'a word) = big_endian_number cs" if "length cs = sizeof TYPE('a)"
    using that by (rule uint_qFromBigEndian)
  show "value_num h row column = v"
    if "8 dvd LENGTH('a)
        \<and> PQcell h (int_of_uint32 row) (int_of_uint32 column)
            = Some (Some (big_endian_encoding (v :: 'a word)))"
    using that value_num_encoding [of h row column v] by blast
qed

lemma encoding_sample: "big_endian_encoding (16909060 :: 32 word) = [1, 2, 3, 4]"
  by (simp add: big_endian_encoding_def sizeof_def upt_rec drop_bit_eq_div)

theorem C5_value_num_witness:
  "big_endian_encoding (16909060 :: 32 word) = [1, 2, 3, 4]
   \<and> (value_num (Some (single_cell [1, 2, 3, 4])) 0 0 :: 32 word) = 16909060
   \<and> uint (qFromBigEndian [1, 2, 3, 4] :: 32 word) = big_endian_number [1, 2, 3, 4]
   \<and> big_endian_number [1, 2, 3, 4] = 16909060"
proof -
  have d: "8 dvd LENGTH(32)" by simp
  have c: "PQcell (Some (single_cell [1, 2, 3, 4])) (int_of_uint32 0) (int_of_uint32 0)
             = Some (Some (big_endian_encoding (16909060 :: 32 word)))"
    by (simp add: PQcell_single_cell encoding_sample)
  have l: "length [1, 2, 3, 4 :: byte] = sizeof TYPE(32)" by (simp add: sizeof_def)
  from C5_value_num [of "Some (single_cell [1, 2, 3, 4])" 0 0 "[1, 2, 3, 4]" "16909060 :: 32 word"] d c l
  have "(value_num (Some (single_cell [1, 2, 3, 4])) 0 0 :: 32 word) = 16909060"
    and "uint (qFromBigEndian [1, 2, 3, 4] :: 32 word) = big_endian_number [1, 2, 3, 4]"
    by blast+
  moreover have "big_endian_number [1, 2, 3, 4] = 16909060"
    by (simp add: big_endian_number_def)
  ultimately show ?thesis using encoding_sample by blast
qed

subsection \<open>Decoding a date-time\<close>

lemma sint_int64:
  "- (2 ^ 63) \<le> u \<Longrightarrow> u < 2 ^ 63 \<Longrightarrow> sint (word_of_int u :: 64 word) = u"
  by (simp add: sint_sbintrunc' signed_take_bit_int_eq_self)

lemma value_QDateTime_encoded:
  assumes "- (2 ^ 63) \<le> u" and "u < 2 ^ 63"
    and "PQcell h (int_of_uint32 row) (int_of_uint32 column) = Some (Some (encode_timestamp u))"
  shows "value_QDateTime h row column = DateTime (u sdiv 1000)"
proof -
  have "(value_num h row column :: 64 word) = word_of_int u"
    using assms(3) unfolding encode_timestamp_def
    by (intro value_num_encoding) simp_all
  then show ?thesis
    using sint_int64 [OF assms(1,2)]
    by (simp add: value_QDateTime_def addMSecs_def epoch_2000_def)
qed

text \<open>C++ division by 1000 against the division that rounds down.\<close>

lemma sdiv_1000:
  "(u::int) sdiv 1000 = (if 0 \<le> u \<or> 1000 dvd u then u div 1000 else u div 1000 + 1)"
proof (cases "0 \<le> u")
  case True
  then show ?thesis by (simp add: signed_divide_int_def sgn_if)
next
  case False
  then have neg: "u < 0" by simp
  have s: "u sdiv 1000 = - ((- u) div 1000)"
    using neg by (simp add: signed_divide_int_def sgn_if)
  show ?thesis
  proof (cases "1000 dvd u")
    case True
    then obtain k where "u = 1000 * k" ..
    then show ?thesis unfolding s by simp
  next
    case False
    have "(- u) div 1000 = - (u div 1000) - 1"
      using False by (simp add: zdiv_zminus1_eq_if mod_eq_0_iff_dvd)
    then show ?thesis unfolding s using False neg by simp
  qed
qed

text \<open>
  C6, as the code has it.  A date-time that is \<open>u\<close> microseconds from
  2000-01-01T00:00:00, with \<open>u\<close> in the range of \<open>int64_t\<close>, sent as the big-endian
  \<open>int64_t\<close> of \<open>u\<close>, decodes to the instant \<open>u / 1000\<close> milliseconds from
  2000-01-01T00:00:00, where \<open>/\<close> is the division of C++, which rounds towards zero.
  That is the date-time truncated to millisecond precision when it is not before
  2000-01-01T00:00:00 or is a whole number of milliseconds; a date-time before
  2000-01-01T00:00:00 with a fraction of a millisecond decodes to the next millisecond
  after it.
\<close>

theorem C6_value_QDateTime:
  assumes "- (2 ^ 63) \<le> u" and "u < 2 ^ 63"
    and "PQcell h (int_of_uint32 row) (int_of_uint32 column) = Some (Some (encode_timestamp u))"
  shows "value_QDateTime h row column = DateTime (u sdiv 1000)
   \<and> (0 \<le> u \<or> 1000 dvd u \<longrightarrow> value_QDateTime h row column = truncate_to_msecs u)
   \<and> (u < 0 \<and> \<not> 1000 dvd u \<longrightarrow> value_QDateTime h row column = DateTime (u div 1000 + 1))"
  unfolding value_QDateTime_encoded [OF assms] truncate_to_msecs_def
  by (simp add: sdiv_1000)

lemma encode_timestamp_sample: "encode_timestamp 1999 = [0, 0, 0, 0, 0, 0, 7, 207]"
  by (simp add: encode_timestamp_def big_endian_encoding_def sizeof_def upt_rec drop_bit_eq_div)

theorem C6_value_QDateTime_witness:
  "encode_timestamp 1999 = [0, 0, 0, 0, 0, 0, 7, 207]
   \<and> value_QDateTime (Some (single_cell (encode_timestamp 1999))) 0 0 = DateTime 1
   \<and> truncate_to_msecs 1999 = DateTime 1"
proof -
  have r: "- (2 ^ 63) \<le> (1999::int)" "(1999::int) < 2 ^ 63" by simp_all
  from C6_value_QDateTime [OF r PQcell_single_cell]
  have "value_QDateTime (Some (single_cell (encode_timestamp 1999))) 0 0 = truncate_to_msecs 1999"
    by (simp add: truncate_to_msecs_def)
  moreover have "truncate_to_msecs 1999 = DateTime 1"
    by (simp add: truncate_to_msecs_def)
  ultimately show ?thesis using encode_timestamp_sample by simp
qed

text \<open>
  The claim as stated fails one microsecond before 2000-01-01T00:00:00: truncated to
  millisecond precision that date-time is 1999-12-31T23:59:59.999, one millisecond
  before 2000-01-01T00:00:00, and it decodes to 2000-01-01T00:00:00 itself.
\<close>

theorem C6_counterexample:
  "value_QDateTime (Some (single_cell (encode_timestamp (- 1)))) 0 0 = DateTime 0
   \<and> truncate_to_msecs (- 1) = DateTime (- 1)
   \<and> value_QDateTime (Some (single_cell (encode_timestamp (- 1)))) 0 0 \<noteq> truncate_to_msecs (- 1)"
proof -
  have r: "- (2 ^ 63) \<le> (- 1::int)" "(- 1::int) < 2 ^ 63" by simp_all
  have "value_QDateTime (Some (single_cell (encode_timestamp (- 1)))) 0 0 = DateTime (- 1 sdiv 1000)"
    by (rule value_QDateTime_encoded [OF r PQcell_single_cell])
  then show ?thesis
    by (simp add: truncate_to_msecs_def signed_divide_int_def)
qed

end
